theory Spec2Isabelle
  imports Main "HOL-Library.Word"
begin

section \<open>The accessibility shim of kitty (kitty/accessibility.c)\<close>

text \<open>
  The file is a CPython extension: every entry point receives an argument tuple, reads
  attributes of host objects (Boss, Window, Screen, Cursor, HistoryBuf, LineBuf) and
  returns a new Python object, or NULL after setting an exception. The embedding keeps
  that shape: an entry point takes the global state and the argument tuple and returns
  its result (\<open>Inl\<close> for a NULL return, with the exception set at that place) together
  with the state it leaves behind.

  Calls whose failure the C code does not test (\<open>PyLong_AsLong\<close>, a missing
  \<open>scrolled_by\<close>, a failing \<open>__len__\<close>, \<open>as_text\<close> or \<open>str\<close>) leave an
  exception pending in the interpreter while the function goes on. The embedding gives
  the value the C function returns in that case; the interpreter reports the pending
  exception to the Python caller in place of that value. Inside these functions a
  pending exception has one effect, on the later call of \<open>__len__\<close>: it is part of
  \<open>read_history_lines\<close>.
\<close>

subsection \<open>Python values, C integers\<close>

text \<open>
  The values that come in as arguments and as attributes: \<open>None\<close>, ints, strs and tuples
  of these. Equality of two such values is Python's \<open>==\<close>, the equality of the keys of
  a dict.
\<close>

datatype pyval = PyNone | PyInt int | PyStr string | PyTuple "pyval list"

text \<open>\<open>long\<close> on the LP64 platforms kitty builds for (macOS, Linux), and \<open>int\<close>.\<close>

type_synonym long = "64 word"
type_synonym c_int = "32 word"

definition fits_long :: "int \<Rightarrow> bool" where
  "fits_long i \<longleftrightarrow> - (2 ^ 63) \<le> i \<and> i < 2 ^ 63"

definition fits_int :: "int \<Rightarrow> bool" where
  "fits_int i \<longleftrightarrow> - (2 ^ 31) \<le> i \<and> i < 2 ^ 31"

text \<open>
  \<open>PyLong_AsLong\<close>: the value of a Python int that fits a \<open>long\<close>; otherwise (an int
  out of range, or an object that is no int) it returns -1 and sets an exception.
\<close>

fun PyLong_AsLong :: "pyval \<Rightarrow> long" where
  "PyLong_AsLong (PyInt i) = (if fits_long i then word_of_int i else - 1)"
| "PyLong_AsLong PyNone = - 1"
| "PyLong_AsLong (PyStr s) = - 1"
| "PyLong_AsLong (PyTuple vs) = - 1"

text \<open>Whether that call of \<open>PyLong_AsLong\<close> sets an exception.\<close>

fun PyLong_AsLong_raises :: "pyval \<Rightarrow> bool" where
  "PyLong_AsLong_raises (PyInt i) = (\<not> fits_long i)"
| "PyLong_AsLong_raises PyNone = True"
| "PyLong_AsLong_raises (PyStr s) = True"
| "PyLong_AsLong_raises (PyTuple vs) = True"

definition PyLong_FromLong :: "long \<Rightarrow> pyval" where
  "PyLong_FromLong v = PyInt (sint v)"

definition PyLong_FromSsize_t :: "int \<Rightarrow> pyval" where
  "PyLong_FromSsize_t n = PyInt n"

text \<open>\<open>PyUnicode_GET_LENGTH\<close> is only applied to the str that get_terminal_text built.\<close>

fun PyUnicode_GET_LENGTH :: "pyval \<Rightarrow> int" where
  "PyUnicode_GET_LENGTH (PyStr s) = int (length s)"
| "PyUnicode_GET_LENGTH PyNone = 0"
| "PyUnicode_GET_LENGTH (PyInt i) = 0"
| "PyUnicode_GET_LENGTH (PyTuple vs) = 0"

text \<open>\<open>PyUnicode_Concat\<close> of a str with an object: NULL (TypeError) unless it is a str.\<close>

fun PyUnicode_Concat :: "string \<Rightarrow> pyval \<Rightarrow> string option" where
  "PyUnicode_Concat r (PyStr s) = Some (r @ s)"
| "PyUnicode_Concat r PyNone = None"
| "PyUnicode_Concat r (PyInt i) = None"
| "PyUnicode_Concat r (PyTuple vs) = None"


subsection \<open>Exceptions\<close>

text \<open>
  \<open>RuntimeError m\<close> is \<open>PyErr_SetString(PyExc_RuntimeError, m)\<close>; \<open>ValueError f n\<close> is
  \<open>PyErr_Format(PyExc_ValueError, f, n)\<close> with its one \<open>%ld\<close> argument. The three
  \<open>ParseTuple\<close> errors are what \<open>PyArg_ParseTuple\<close> raises. \<open>Unchecked_NULL\<close> marks the
  one place where the code goes on with a NULL pointer.
\<close>

datatype error =
    RuntimeError string
  | ValueError string long
  | ParseTuple_TypeError
  | ParseTuple_ValueError
  | ParseTuple_OverflowError
  | Unchecked_NULL

subsection \<open>Host objects\<close>

text \<open>
  An attribute is an option: \<open>None\<close> when \<open>PyObject_GetAttrString\<close> returns NULL. The
  result of a method call is an option too: \<open>None\<close> when the call raises.
\<close>

record Cursor =
  cursor_x :: "pyval option"
  cursor_y :: "pyval option"

record HistoryBuf =
  historybuf_as_text :: "pyval option"
  historybuf_len :: "pyval option"

record LineBuf =
  linebuf_str :: "string option"

record Screen =
  screen_cursor :: "Cursor option"
  screen_columns :: "pyval option"
  screen_lines :: "pyval option"
  screen_scrolled_by :: "pyval option"
  screen_historybuf :: "HistoryBuf option"
  screen_linebuf :: "LineBuf option"

text \<open>
  A window owns its screen and the input pipeline of its child process:
  \<open>child_input\<close> is what the child has been sent so far, \<open>child_writable\<close> whether
  \<open>write_to_child\<close> succeeds.
\<close>

record Window =
  window_screen :: "Screen option"
  child_input :: string
  child_writable :: bool

record Boss =
  window_id_map :: "(pyval \<rightharpoonup> Window) option"

record global_state =
  boss :: "Boss option"


text \<open>
  What a lookup in the registry can give back: the window registered under a key, or
  an object that is no window (\<open>None\<close>, an int, a str or a tuple), which has neither a
  \<open>screen\<close> attribute nor a \<open>write_to_child\<close> method.
\<close>

datatype pyobject = Registered pyval Window | Plain pyval


subsection \<open>Argument tuples\<close>

text \<open>
  \<open>PyArg_ParseTuple\<close> with the three formats the file uses. \<open>O\<close> takes any object;
  \<open>s\<close> takes a str and gives its bytes as a C string, refusing an embedded NUL;
  \<open>i\<close> takes an int and refuses one outside the range of a C \<open>int\<close>.
\<close>

fun PyArg_ParseTuple_O :: "pyval list \<Rightarrow> error + pyval" where
  "PyArg_ParseTuple_O [a] = Inr a"
| "PyArg_ParseTuple_O args = Inl ParseTuple_TypeError"


fun PyArg_ParseTuple_Oi :: "pyval list \<Rightarrow> error + pyval \<times> c_int" where
  "PyArg_ParseTuple_Oi [a, PyInt i] =
     (if fits_int i then Inr (a, word_of_int i) else Inl ParseTuple_OverflowError)"
| "PyArg_ParseTuple_Oi args = Inl ParseTuple_TypeError"

subsection \<open>Helpers\<close>

text \<open>
  \<open>dict.get(k, d)\<close>: the value stored under the key, or the default \<open>d\<close>
  (\<open>None\<close> when none is given).
\<close>

definition dict_get :: "(pyval \<rightharpoonup> Window) \<Rightarrow> pyval \<Rightarrow> pyval \<Rightarrow> pyobject" where
  "dict_get m k d = (case m k of Some w \<Rightarrow> Registered k w | None \<Rightarrow> Plain d)"

text \<open>
  \<open>PyObject_CallMethod(window_id_map, "get", "O", window_id_obj)\<close>. The format
  \<open>"O"\<close> builds the arguments of the call from the one object, and an object that is
  a tuple already is taken as the argument tuple itself. So an identifier that is no
  tuple is looked up as it is, while a tuple is unpacked: \<open>(k,)\<close> looks up \<open>k\<close>,
  \<open>(k, d)\<close> looks up \<open>k\<close> with the default \<open>d\<close>, and any other tuple makes
  \<open>get\<close> raise TypeError (\<open>None\<close> here: the call returns NULL).
\<close>

fun window_id_map_get :: "(pyval \<rightharpoonup> Window) \<Rightarrow> pyval \<Rightarrow> pyobject option" where
  "window_id_map_get m (PyTuple [k]) = Some (dict_get m k PyNone)"
| "window_id_map_get m (PyTuple [k, d]) = Some (dict_get m k d)"
| "window_id_map_get m (PyTuple vs) = None"
| "window_id_map_get m v = Some (dict_get m v PyNone)"

text \<open>The code treats a NULL result and \<open>None\<close> alike: the window is not found.\<close>

definition get_window_from_id :: "global_state \<Rightarrow> pyval \<Rightarrow> error + pyobject" where
  "get_window_from_id st window_id_obj =
     (case boss st of
        None \<Rightarrow> Inl (RuntimeError ''Boss object not available'')
      | Some b \<Rightarrow>
          (case window_id_map b of
             None \<Rightarrow> Inl (RuntimeError ''Could not get window_id_map from Boss'')
           | Some m \<Rightarrow>
               (case window_id_map_get m window_id_obj of
                  None \<Rightarrow> Inl (ValueError ''Window with ID %ld not found''
                                  (PyLong_AsLong window_id_obj))
                | Some window \<Rightarrow>
                    (if window = Plain PyNone
                     then Inl (ValueError ''Window with ID %ld not found''
                                 (PyLong_AsLong window_id_obj))
                     else Inr window))))"

definition get_screen_from_window :: "pyobject \<Rightarrow> error + Screen" where
  "get_screen_from_window window =
     (case window of
        Plain v \<Rightarrow> Inl (RuntimeError ''Could not get screen from Window'')
      | Registered k w \<Rightarrow>
          (case window_screen w of
             None \<Rightarrow> Inl (RuntimeError ''Could not get screen from Window'')
           | Some screen \<Rightarrow> Inr screen))"

text \<open>
  \<open>strcmp\<close> on C strings: the list holds the bytes, the terminating NUL follows it. The
  comparison stops at the first difference or at a NUL and returns the difference of the
  two bytes, read as unsigned.
\<close>

fun strcmp :: "string \<Rightarrow> string \<Rightarrow> int" where
  "strcmp [] [] = 0"
| "strcmp [] (b # bs) = 0 - of_char b"
| "strcmp (a # as) [] = of_char a"
| "strcmp (a # as) (b # bs) =
     (if a = b then (if a = CHR 0x00 then 0 else strcmp as bs)
      else of_char a - of_char b)"

text \<open>The C string a byte list denotes: the bytes before the first NUL.\<close>

definition c_str :: "string \<Rightarrow> string" where
  "c_str s = takeWhile (\<lambda>c. c \<noteq> CHR 0x00) s"

subsection \<open>Voice commands\<close>

definition process_voice_command :: "string \<Rightarrow> string" where
  "process_voice_command txt =
     (if strcmp txt ''new line'' = 0 \<or> strcmp txt ''newline'' = 0 then [CHR 0x0A]
      else if strcmp txt ''tab'' = 0 then [CHR 0x09]
      else if strcmp txt ''escape'' = 0 then [CHR 0x1B]
      else if strcmp txt ''space'' = 0 then '' ''
      else if strcmp txt ''backspace'' = 0 then [CHR 0x7F]
      else if strcmp txt ''delete'' = 0 then [CHR 0x7F]
      else if strcmp txt ''enter'' = 0 \<or> strcmp txt ''return'' = 0 then [CHR 0x0D]
      else txt)"

text \<open>The phrases the table recognises, and the byte strings it emits.\<close>

definition voice_phrases :: "string list" where
  "voice_phrases = [''new line'', ''newline'', ''tab'', ''escape'', ''space'',
                    ''backspace'', ''delete'', ''enter'', ''return'']"

definition control_strings :: "string list" where
  "control_strings = [[CHR 0x0A], [CHR 0x09], [CHR 0x1B], '' '', [CHR 0x7F], [CHR 0x0D]]"

subsection \<open>Entry points\<close>

type_synonym PyCFunction = "global_state \<Rightarrow> pyval list \<Rightarrow> (error + pyval) \<times> global_state"

text \<open>
  get_terminal_text: \<open>result\<close> starts as the empty str; the text of the history buffer is
  appended when \<open>as_text()\<close> returns something other than \<open>None\<close>; when \<open>str(linebuf)\<close>
  succeeds, a newline is appended to a non-empty \<open>result\<close>, then the text of the line
  buffer. A failed \<open>PyUnicode_Concat\<close> leaves \<open>result\<close> NULL, which the code then reads
  or returns.
\<close>

definition get_terminal_text :: PyCFunction where
  "get_terminal_text st args =
     (case PyArg_ParseTuple_O args of
        Inl e \<Rightarrow> (Inl e, st)
      | Inr window_id_obj \<Rightarrow>
     (case get_window_from_id st window_id_obj of
        Inl e \<Rightarrow> (Inl e, st)
      | Inr window \<Rightarrow>
     (case get_screen_from_window window of
        Inl e \<Rightarrow> (Inl e, st)
      | Inr screen \<Rightarrow>
     (case screen_linebuf screen of
        None \<Rightarrow> (Inl (RuntimeError ''Could not get linebuf from Screen''), st)
      | Some linebuf \<Rightarrow>
     (case screen_historybuf screen of
        None \<Rightarrow> (Inl (RuntimeError ''Could not get historybuf from Screen''), st)
      | Some historybuf \<Rightarrow>
          (let result =
                 (case historybuf_as_text historybuf of
                    None \<Rightarrow> Some []
                  | Some PyNone \<Rightarrow> Some []
                  | Some historybuf_str \<Rightarrow> PyUnicode_Concat [] historybuf_str)
           in case result of
                None \<Rightarrow> (Inl Unchecked_NULL, st)
              | Some r \<Rightarrow>
                  (case linebuf_str linebuf of
                     None \<Rightarrow> (Inr (PyStr r), st)
                   | Some ls \<Rightarrow>
                       (let r' = (if int (length r) > 0 then r @ [CHR 0x0A] else r)
                        in (Inr (PyStr (r' @ ls)), st)))))))))"

text \<open>
  The scroll offset and the number of history lines are read by the same two blocks of
  code in get_cursor_text_position and in get_visible_character_range: both values fall
  back to 0 when they cannot be read. The number of history lines comes from a call of
  \<open>__len__\<close>, and the interpreter turns the result of a call into NULL when an
  exception is pending: after a conversion that failed or a missing \<open>scrolled_by\<close>
  the number of history lines is read as 0 whatever the history buffer reports.
\<close>

definition read_scrolled_by :: "Screen \<Rightarrow> long" where
  "read_scrolled_by screen =
     (case screen_scrolled_by screen of
        None \<Rightarrow> 0
      | Some scrolled_by_obj \<Rightarrow> PyLong_AsLong scrolled_by_obj)"

definition read_scrolled_by_raises :: "Screen \<Rightarrow> bool" where
  "read_scrolled_by_raises screen =
     (case screen_scrolled_by screen of
        None \<Rightarrow> True
      | Some scrolled_by_obj \<Rightarrow> PyLong_AsLong_raises scrolled_by_obj)"

definition read_history_lines :: "bool \<Rightarrow> Screen \<Rightarrow> long" where
  "read_history_lines pending screen =
     (case screen_historybuf screen of
        None \<Rightarrow> 0
      | Some historybuf \<Rightarrow>
          (case (if pending then None else historybuf_len historybuf) of
             None \<Rightarrow> 0
           | Some count_obj \<Rightarrow> PyLong_AsLong count_obj))"

text \<open>
  get_cursor_text_position. The arithmetic is that of \<open>long\<close>, taken as two's
  complement: \<open>+\<close>, \<open>-\<close> and \<open>*\<close> on words wrap around.
\<close>

definition get_cursor_text_position :: PyCFunction where
  "get_cursor_text_position st args =
     (case PyArg_ParseTuple_O args of
        Inl e \<Rightarrow> (Inl e, st)
      | Inr window_id_obj \<Rightarrow>
     (case get_window_from_id st window_id_obj of
        Inl e \<Rightarrow> (Inl e, st)
      | Inr window \<Rightarrow>
     (case get_screen_from_window window of
        Inl e \<Rightarrow> (Inl e, st)
      | Inr screen \<Rightarrow>
     (case screen_cursor screen of
        None \<Rightarrow> (Inl (RuntimeError ''Could not get cursor from Screen''), st)
      | Some cursor \<Rightarrow>
     (case (cursor_x cursor, cursor_y cursor) of
        (Some x_obj, Some y_obj) \<Rightarrow>
          (let x = PyLong_AsLong x_obj; y = PyLong_AsLong y_obj
           in case screen_columns screen of
                None \<Rightarrow> (Inl (RuntimeError ''Could not get columns from Screen''), st)
              | Some columns_obj \<Rightarrow>
                  (let columns = PyLong_AsLong columns_obj;
                       scrolled_by = read_scrolled_by screen;
                       pending = (PyLong_AsLong_raises x_obj \<or> PyLong_AsLong_raises y_obj \<or>
                                  PyLong_AsLong_raises columns_obj \<or>
                                  read_scrolled_by_raises screen);
                       history_lines = read_history_lines pending screen;
                       position = (history_lines - scrolled_by + y) * columns + x
                   in (Inr (PyLong_FromLong position), st)))
      | _ \<Rightarrow> (Inl (RuntimeError ''Could not get cursor position''), st))))))"


definition set_cursor_position :: PyCFunction where
  "set_cursor_position st args =
     (case PyArg_ParseTuple_Oi args of
        Inl e \<Rightarrow> (Inl e, st)
      | Inr (window_id_obj, position) \<Rightarrow> (Inr PyNone, st))"

definition get_number_of_characters :: PyCFunction where
  "get_number_of_characters st args =
     (case PyArg_ParseTuple_O args of
        Inl e \<Rightarrow> (Inl e, st)
      | Inr window_id_obj \<Rightarrow>
          (case get_terminal_text st args of
             (Inl e, st') \<Rightarrow> (Inl e, st')
           | (Inr txt, st') \<Rightarrow> (Inr (PyLong_FromSsize_t (PyUnicode_GET_LENGTH txt)), st')))"

definition get_visible_character_range :: PyCFunction where
  "get_visible_character_range st args =
     (case PyArg_ParseTuple_O args of
        Inl e \<Rightarrow> (Inl e, st)
      | Inr window_id_obj \<Rightarrow>
     (case get_window_from_id st window_id_obj of
        Inl e \<Rightarrow> (Inl e, st)
      | Inr window \<Rightarrow>
     (case get_screen_from_window window of
        Inl e \<Rightarrow> (Inl e, st)
      | Inr screen \<Rightarrow>
     (case (screen_columns screen, screen_lines screen) of
        (Some columns_obj, Some lines_obj) \<Rightarrow>
          (let columns = PyLong_AsLong columns_obj;
               lines = PyLong_AsLong lines_obj;
               scrolled_by = read_scrolled_by screen;
               pending = (PyLong_AsLong_raises columns_obj \<or> PyLong_AsLong_raises lines_obj \<or>
                          read_scrolled_by_raises screen);
               history_lines = read_history_lines pending screen;
               start = (history_lines - scrolled_by) * columns;
               len = lines * columns;
               start = (if start <s 0 then 0 else start)
           in (Inr (PyTuple [PyLong_FromLong start, PyLong_FromLong len]), st))
      | _ \<Rightarrow> (Inl (RuntimeError ''Could not get screen dimensions''), st)))))"

text \<open>Every query starts with the same two lookups: the window, then its screen.\<close>

definition resolve_screen :: "global_state \<Rightarrow> pyval \<Rightarrow> error + Screen" where
  "resolve_screen st window_id_obj =
     (case get_window_from_id st window_id_obj of
        Inl e \<Rightarrow> Inl e
      | Inr window \<Rightarrow> get_screen_from_window window)"


subsection \<open>Example states\<close>

text \<open>
  A screen that reports the cursor \<open>(x, y)\<close> and the geometry given, and a state whose
  registry holds one window, with identifier 1, showing a given screen.
\<close>

definition reporting_screen :: "int \<Rightarrow> int \<Rightarrow> int \<Rightarrow> int \<Rightarrow> int \<Rightarrow> int \<Rightarrow> Screen" where
  "reporting_screen x y columns lines history_lines scrolled_by =
     \<lparr>screen_cursor = Some \<lparr>cursor_x = Some (PyInt x), cursor_y = Some (PyInt y)\<rparr>,
      screen_columns = Some (PyInt columns),
      screen_lines = Some (PyInt lines),
      screen_scrolled_by = Some (PyInt scrolled_by),
      screen_historybuf = Some \<lparr>historybuf_as_text = Some (PyStr ''make''),
                                historybuf_len = Some (PyInt history_lines)\<rparr>,
      screen_linebuf = Some \<lparr>linebuf_str = Some ''$ ''\<rparr>\<rparr>"

text \<open>A screen with nothing scrolled off: \<open>as_text()\<close> of its history is \<open>None\<close>.\<close>

definition empty_history_screen :: Screen where
  "empty_history_screen =
     (reporting_screen 5 2 80 24 0 0)
       \<lparr>screen_historybuf :=
          Some \<lparr>historybuf_as_text = Some PyNone, historybuf_len = Some (PyInt 0)\<rparr>\<rparr>"

definition single_window_state :: "Screen \<Rightarrow> global_state" where
  "single_window_state screen =
     \<lparr>boss = Some \<lparr>window_id_map = Some [PyInt 1 \<mapsto>
        \<lparr>window_screen = Some screen, child_input = [], child_writable = True\<rparr>]\<rparr>\<rparr>"

section \<open>Properties\<close>

subsection \<open>String comparison\<close>

lemma of_char_0_iff: "(of_char c :: int) = 0 \<longleftrightarrow> c = CHR 0x00"
proof -
  have "(of_char c :: int) = of_char (CHR 0x00) \<longleftrightarrow> c = CHR 0x00"
    by (rule of_char_eq_iff)
  then show ?thesis by simp
qed

lemma strcmp_eq_0_iff: "strcmp a b = 0 \<longleftrightarrow> c_str a = c_str b"
  by (induction a b rule: strcmp.induct) (auto simp: c_str_def of_char_0_iff)

lemma c_str_id: "CHR 0x00 \<notin> set s \<Longrightarrow> c_str s = s"
  unfolding c_str_def by (rule takeWhile_eq_all_conv [THEN iffD2]) auto

lemma c_str_phrases:
  "c_str ''new line'' = ''new line''" "c_str ''newline'' = ''newline''"
  "c_str ''tab'' = ''tab''" "c_str ''escape'' = ''escape''" "c_str ''space'' = ''space''"
  "c_str ''backspace'' = ''backspace''" "c_str ''delete'' = ''delete''"
  "c_str ''enter'' = ''enter''" "c_str ''return'' = ''return''"
  by (simp_all add: c_str_def)

lemma process_voice_command_c_str:
  "process_voice_command s =
     (if c_str s = ''new line'' \<or> c_str s = ''newline'' then [CHR 0x0A]
      else if c_str s = ''tab'' then [CHR 0x09]
      else if c_str s = ''escape'' then [CHR 0x1B]
      else if c_str s = ''space'' then '' ''
      else if c_str s = ''backspace'' then [CHR 0x7F]
      else if c_str s = ''delete'' then [CHR 0x7F]
      else if c_str s = ''enter'' \<or> c_str s = ''return'' then [CHR 0x0D]
      else s)"
  unfolding process_voice_command_def strcmp_eq_0_iff c_str_phrases ..

lemma process_voice_command_unmatched:
  "c_str s \<notin> set voice_phrases \<Longrightarrow> process_voice_command s = s"
  by (simp add: process_voice_command_c_str voice_phrases_def)

lemma process_voice_command_cases:
  "process_voice_command s \<in> set control_strings \<or> process_voice_command s = s"
  by (simp add: process_voice_command_c_str control_strings_def)

lemma process_voice_command_control:
  "t \<in> set control_strings \<Longrightarrow> process_voice_command t = t"
  by (auto simp: process_voice_command_c_str control_strings_def c_str_def)

subsection \<open>Machine integers\<close>

lemma sint_word_of_int_fits: "fits_long v \<Longrightarrow> sint (word_of_int v :: long) = v"
  by (simp add: fits_long_def sint_sbintrunc' signed_take_bit_int_eq_self)

subsection \<open>Lookups and the text of the terminal\<close>

lemma resolve_screenD:
  "resolve_screen st window_id = Inr scr \<Longrightarrow>
   \<exists>w. get_window_from_id st window_id = Inr w \<and> get_screen_from_window w = Inr scr"
  by (auto simp: resolve_screen_def split: sum.splits)

lemma resolve_single_window_state:
  "resolve_screen (single_window_state scr) (PyInt 1) = Inr scr"
  by (simp add: resolve_screen_def single_window_state_def get_window_from_id_def
      get_screen_from_window_def dict_get_def)







lemma get_terminal_text_Inr:
  assumes "get_terminal_text st args = (Inr v, st')"
  shows "\<exists>t. v = PyStr t"
  using assms
  by (auto simp: get_terminal_text_def Let_def
      split: sum.splits option.splits pyval.splits if_splits)

lemma get_terminal_text_args:
  assumes "get_terminal_text st args = (Inr v, st')"
  shows "\<exists>a. args = [a]"
proof (cases "PyArg_ParseTuple_O args")
  case (Inl e)
  with assms show ?thesis by (simp add: get_terminal_text_def)
next
  case (Inr a)
  then show ?thesis by (cases args rule: PyArg_ParseTuple_O.cases) auto
qed

lemma get_terminal_text_single_window_state:
  "get_terminal_text (single_window_state (reporting_screen 5 2 80 24 100 0)) [PyInt 1]
     = (Inr (PyStr (''make'' @ [CHR 0x0A] @ ''$ '')),
        single_window_state (reporting_screen 5 2 80 24 100 0))"
  by (simp add: get_terminal_text_def single_window_state_def reporting_screen_def
      get_window_from_id_def get_screen_from_window_def dict_get_def)

subsection \<open>The clamp of the visible range\<close>

lemma sint_clamp_nonneg: "0 \<le> sint (if v <s 0 then 0 else v :: long)"
  by (simp add: word_sless_alt)

lemma get_visible_character_range_start:
  assumes "get_visible_character_range st args = (Inr (PyTuple [PyInt start, len]), st')"
  shows "0 \<le> start"
  using assms sint_clamp_nonneg
  by (auto simp: get_visible_character_range_def Let_def PyLong_FromLong_def
      split: sum.splits option.splits prod.splits)

section \<open>Claims\<close>

subsection \<open>C1: the cursor offset\<close>

text \<open>
  C1, as amended. For every window whose screen reports the cursor \<open>(x, y)\<close>, the
  column count, the number of history lines and the scroll offset, each within the range
  of a C \<open>long\<close>, and for which \<open>(history_lines - scrolled_by + y) * columns + x\<close>
  lies within that range too, get_cursor_text_position returns exactly that number and
  leaves the state as it was. For the geometry \<open>columns = 80\<close>, \<open>lines = 24\<close>,
  \<open>history_lines = 100\<close>, \<open>scrolled_by = 0\<close> and the cursor \<open>(5, 2)\<close> it
  returns 8165.
\<close>

theorem get_cursor_text_position_offset:
  assumes scr: "resolve_screen st window_id = Inr scr"
    and cur: "screen_cursor scr = Some cur"
    and x: "cursor_x cur = Some (PyInt x)" and y: "cursor_y cur = Some (PyInt y)"
    and columns: "screen_columns scr = Some (PyInt columns)"
    and scrolled_by: "screen_scrolled_by scr = Some (PyInt scrolled_by)"
    and hb: "screen_historybuf scr = Some hb"
    and history_lines: "historybuf_len hb = Some (PyInt history_lines)"
    and fits: "fits_long x" "fits_long y" "fits_long columns" "fits_long scrolled_by"
      "fits_long history_lines"
      "fits_long ((history_lines - scrolled_by + y) * columns + x)"
  shows "get_cursor_text_position st [window_id] =
           (Inr (PyInt ((history_lines - scrolled_by + y) * columns + x)), st)"
proof -
  from scr obtain w where w: "get_window_from_id st window_id = Inr w"
    and ws: "get_screen_from_window w = Inr scr"
    by (blast dest: resolve_screenD)
  have s: "read_scrolled_by scr = word_of_int scrolled_by"
    using scrolled_by fits by (simp add: read_scrolled_by_def)
  have p: "\<not> read_scrolled_by_raises scr"
    using scrolled_by fits by (simp add: read_scrolled_by_raises_def)
  have h: "read_history_lines False scr = word_of_int history_lines"
    using hb history_lines fits by (simp add: read_history_lines_def)
  have "sint ((word_of_int history_lines - word_of_int scrolled_by + word_of_int y)
               * word_of_int columns + word_of_int x :: long)
          = sint (word_of_int ((history_lines - scrolled_by + y) * columns + x) :: long)"
    by (simp only: wi_homs)
  also have "\<dots> = (history_lines - scrolled_by + y) * columns + x"
    using fits(6) by (rule sint_word_of_int_fits)
  finally have pos: "PyLong_FromLong ((word_of_int history_lines - word_of_int scrolled_by
               + word_of_int y) * word_of_int columns + word_of_int x)
          = PyInt ((history_lines - scrolled_by + y) * columns + x)"
    by (simp only: PyLong_FromLong_def)
  have "get_cursor_text_position st [window_id] =
          (Inr (PyLong_FromLong ((word_of_int history_lines - word_of_int scrolled_by
               + word_of_int y) * word_of_int columns + word_of_int x)), st)"
    using w ws cur x y columns fits
    by (simp add: get_cursor_text_position_def s p h)
  then show ?thesis by (simp only: pos)
qed

theorem get_cursor_text_position_offset_witness:
  "get_cursor_text_position (single_window_state (reporting_screen 5 2 80 24 100 0)) [PyInt 1]
     = (Inr (PyInt 8165), single_window_state (reporting_screen 5 2 80 24 100 0))"
  using get_cursor_text_position_offset
    [of "single_window_state (reporting_screen 5 2 80 24 100 0)" "PyInt 1"
        "reporting_screen 5 2 80 24 100 0"
        "\<lparr>cursor_x = Some (PyInt 5), cursor_y = Some (PyInt 2)\<rparr>" 5 2 80 0
        "\<lparr>historybuf_as_text = Some (PyStr ''make''), historybuf_len = Some (PyInt 100)\<rparr>"
        100]
  by (simp add: resolve_single_window_state reporting_screen_def fits_long_def)

text \<open>
  Without the bound the equation fails: a value that does not fit a \<open>long\<close> is read as
  -1 by \<open>PyLong_AsLong\<close>, and the function can only return a number in the range of
  \<open>long\<close>. A screen reporting \<open>2 ^ 63\<close> columns and the cursor \<open>(0, 1)\<close> gives -1,
  not \<open>2 ^ 63\<close> (and the OverflowError of \<open>PyLong_AsLong\<close> is still pending when the
  function returns).
\<close>

theorem get_cursor_text_position_offset_counterexample:
  "get_cursor_text_position
     (single_window_state (reporting_screen 0 1 (2 ^ 63) 24 0 0)) [PyInt 1]
     = (Inr (PyInt (- 1)), single_window_state (reporting_screen 0 1 (2 ^ 63) 24 0 0)) \<and>
   (- 1 :: int) \<noteq> (0 - 0 + 1) * 2 ^ 63 + 0"
  by (simp add: get_cursor_text_position_def single_window_state_def reporting_screen_def
      get_window_from_id_def get_screen_from_window_def dict_get_def read_scrolled_by_def
      read_scrolled_by_raises_def read_history_lines_def PyLong_FromLong_def fits_long_def)

subsection \<open>C2: the range of the cursor offset\<close>

text \<open>
  C2 says that for a valid geometry (\<open>columns > 0\<close>, \<open>lines > 0\<close>,
  \<open>history_lines \<ge> 0\<close>, \<open>scrolled_by \<ge> 0\<close>) and a cursor inside the grid the offset
  lies between 0 and \<open>history_lines * columns + lines * columns\<close>. The code does not clamp
  the offset the way get_visible_character_range clamps its start: with 80 columns, 24
  lines, no history line, \<open>scrolled_by = 1\<close> and the cursor at \<open>(0, 0)\<close> it returns -80,
  while the visible range of the same screen starts at 0.
\<close>

theorem get_cursor_text_position_negative:
  "get_cursor_text_position (single_window_state (reporting_screen 0 0 80 24 0 1)) [PyInt 1]
     = (Inr (PyInt (- 80)), single_window_state (reporting_screen 0 0 80 24 0 1)) \<and>
   get_visible_character_range (single_window_state (reporting_screen 0 0 80 24 0 1)) [PyInt 1]
     = (Inr (PyTuple [PyInt 0, PyInt 1920]),
        single_window_state (reporting_screen 0 0 80 24 0 1))"
  by (simp add: get_cursor_text_position_def get_visible_character_range_def
      single_window_state_def reporting_screen_def get_window_from_id_def
      get_screen_from_window_def dict_get_def read_scrolled_by_def read_scrolled_by_raises_def
      read_history_lines_def
      PyLong_FromLong_def fits_long_def word_sless_alt)

subsection \<open>C3: the table of voice commands\<close>

text \<open>
  C3. process_voice_command maps "new line" and "newline" to a line feed, "tab" to a
  tab, "escape" to ESC, "space" to a blank, "backspace" and "delete" to DEL, "enter"
  and "return" to a carriage return, and returns every other C string unchanged; the
  match is exact and case-sensitive, so "NEW LINE" and "hello world" come back as they
  are.
\<close>

theorem process_voice_command_table:
  "process_voice_command ''new line'' = [CHR 0x0A] \<and>
   process_voice_command ''newline'' = [CHR 0x0A] \<and>
   process_voice_command ''tab'' = [CHR 0x09] \<and>
   process_voice_command ''escape'' = [CHR 0x1B] \<and>
   process_voice_command ''space'' = '' '' \<and>
   process_voice_command ''backspace'' = [CHR 0x7F] \<and>
   process_voice_command ''delete'' = [CHR 0x7F] \<and>
   process_voice_command ''enter'' = [CHR 0x0D] \<and>
   process_voice_command ''return'' = [CHR 0x0D] \<and>
   (\<forall>s. CHR 0x00 \<notin> set s \<and> s \<notin> set voice_phrases \<longrightarrow> process_voice_command s = s) \<and>
   process_voice_command ''NEW LINE'' = ''NEW LINE'' \<and>
   process_voice_command ''hello world'' = ''hello world''"
proof -
  have table: "process_voice_command ''new line'' = [CHR 0x0A]"
    "process_voice_command ''newline'' = [CHR 0x0A]"
    "process_voice_command ''tab'' = [CHR 0x09]"
    "process_voice_command ''escape'' = [CHR 0x1B]"
    "process_voice_command ''space'' = '' ''"
    "process_voice_command ''backspace'' = [CHR 0x7F]"
    "process_voice_command ''delete'' = [CHR 0x7F]"
    "process_voice_command ''enter'' = [CHR 0x0D]"
    "process_voice_command ''return'' = [CHR 0x0D]"
    by (simp_all add: process_voice_command_c_str c_str_def)
  have other: "\<forall>s. CHR 0x00 \<notin> set s \<and> s \<notin> set voice_phrases \<longrightarrow> process_voice_command s = s"
    using process_voice_command_unmatched c_str_id by auto
  have examples: "process_voice_command ''NEW LINE'' = ''NEW LINE''"
    "process_voice_command ''hello world'' = ''hello world''"
    by (simp_all add: process_voice_command_c_str c_str_def)
  from table other examples show ?thesis by blast
qed

theorem process_voice_command_table_witness:
  "CHR 0x00 \<notin> set ''Tab'' \<and> ''Tab'' \<notin> set voice_phrases \<and>
   process_voice_command ''Tab'' = ''Tab''"
proof -
  have a: "CHR 0x00 \<notin> set ''Tab''" by simp
  have b: "''Tab'' \<notin> set voice_phrases" by (simp add: voice_phrases_def)
  from process_voice_command_table
  have "\<forall>s. CHR 0x00 \<notin> set s \<and> s \<notin> set voice_phrases \<longrightarrow> process_voice_command s = s"
    by blast
  with a b have "process_voice_command ''Tab'' = ''Tab''" by blast
  with a b show ?thesis by blast
qed

subsection \<open>C4: the text of the terminal\<close>

text \<open>
  C4. For a window whose screen, line buffer and history buffer can be reached,
  get_terminal_text returns the text of the history buffer, then one newline if and
  only if that text is not empty, then the text of the line buffer. The history text is
  what \<open>as_text()\<close> returns, and empty when it returns \<open>None\<close>; with an empty history
  text the result is the text of the line buffer, with no newline before it.
\<close>

theorem get_terminal_text_concat:
  assumes scr: "resolve_screen st window_id = Inr scr"
    and lb: "screen_linebuf scr = Some lb" and live: "linebuf_str lb = Some live"
    and hb: "screen_historybuf scr = Some hb"
    and history: "historybuf_as_text hb = Some (PyStr history) \<or>
                  history = [] \<and> historybuf_as_text hb = Some PyNone"
  shows "get_terminal_text st [window_id] =
           (Inr (PyStr (history @ (if history \<noteq> [] then [CHR 0x0A] else []) @ live)), st) \<and>
         (history = [] \<longrightarrow> get_terminal_text st [window_id] = (Inr (PyStr live), st))"
proof -
  from scr obtain w where w: "get_window_from_id st window_id = Inr w"
    and ws: "get_screen_from_window w = Inr scr"
    by (blast dest: resolve_screenD)
  have "get_terminal_text st [window_id] =
           (Inr (PyStr (history @ (if history \<noteq> [] then [CHR 0x0A] else []) @ live)), st)"
    using history
  proof (elim disjE conjE)
    assume "historybuf_as_text hb = Some (PyStr history)"
    with w ws lb live hb show ?thesis
      by (simp add: get_terminal_text_def)
  next
    assume "history = []" "historybuf_as_text hb = Some PyNone"
    with w ws lb live hb show ?thesis
      by (simp add: get_terminal_text_def)
  qed
  then show ?thesis by simp
qed

theorem get_terminal_text_concat_witness:
  "get_terminal_text (single_window_state (reporting_screen 5 2 80 24 100 0)) [PyInt 1]
     = (Inr (PyStr (''make'' @ [CHR 0x0A] @ ''$ '')),
        single_window_state (reporting_screen 5 2 80 24 100 0)) \<and>
   get_terminal_text (single_window_state empty_history_screen) [PyInt 1]
     = (Inr (PyStr ''$ ''), single_window_state empty_history_screen)"
proof
  show "get_terminal_text (single_window_state (reporting_screen 5 2 80 24 100 0)) [PyInt 1]
     = (Inr (PyStr (''make'' @ [CHR 0x0A] @ ''$ '')),
        single_window_state (reporting_screen 5 2 80 24 100 0))"
    using get_terminal_text_concat
      [of "single_window_state (reporting_screen 5 2 80 24 100 0)" "PyInt 1"
          "reporting_screen 5 2 80 24 100 0" "\<lparr>linebuf_str = Some ''$ ''\<rparr>" "''$ ''"
          "\<lparr>historybuf_as_text = Some (PyStr ''make''),
           historybuf_len = Some (PyInt 100)\<rparr>"
          "''make''"]
    by (simp add: resolve_single_window_state reporting_screen_def)
  show "get_terminal_text (single_window_state empty_history_screen) [PyInt 1]
     = (Inr (PyStr ''$ ''), single_window_state empty_history_screen)"
    using get_terminal_text_concat
      [of "single_window_state empty_history_screen" "PyInt 1" empty_history_screen
          "\<lparr>linebuf_str = Some ''$ ''\<rparr>" "''$ ''"
          "\<lparr>historybuf_as_text = Some PyNone, historybuf_len = Some (PyInt 0)\<rparr>" "[]"]
    by (simp add: resolve_single_window_state reporting_screen_def empty_history_screen_def)
qed

subsection \<open>C5: the number of characters\<close>

text \<open>
  C5. Whenever get_terminal_text succeeds, what it returns is a str, and
  get_number_of_characters, called with the same arguments, returns the length of that
  str, which is not negative.
\<close>

theorem get_number_of_characters_length:
  assumes "get_terminal_text st args = (Inr v, st')"
  shows "\<exists>t. v = PyStr t \<and>
           get_number_of_characters st args = (Inr (PyInt (int (length t))), st') \<and>
           0 \<le> int (length t)"
proof -
  from assms obtain t where t: "v = PyStr t" by (blast dest: get_terminal_text_Inr)
  from assms obtain a where a: "args = [a]" by (blast dest: get_terminal_text_args)
  from assms t a
  have "get_number_of_characters st args = (Inr (PyInt (int (length t))), st')"
    by (simp add: get_number_of_characters_def PyLong_FromSsize_t_def)
  with t show ?thesis by simp
qed

theorem get_number_of_characters_length_witness:
  "get_number_of_characters (single_window_state (reporting_screen 5 2 80 24 100 0)) [PyInt 1]
     = (Inr (PyInt 7), single_window_state (reporting_screen 5 2 80 24 100 0))"
  using get_number_of_characters_length [OF get_terminal_text_single_window_state]
  by auto

subsection \<open>C6: the visible range\<close>

text \<open>
  C6, as amended. For every window whose screen reports the column count, the line
  count, the number of history lines and the scroll offset, each within the range of a C
  \<open>long\<close>, and for which \<open>(history_lines - scrolled_by) * columns\<close> and
  \<open>lines * columns\<close> lie within that range too, get_visible_character_range returns
  the pair of \<open>max 0 ((history_lines - scrolled_by) * columns)\<close> and
  \<open>lines * columns\<close>. Whatever the screen reports, the start it returns is never
  negative, also when \<open>scrolled_by > history_lines\<close>.
\<close>

theorem get_visible_character_range_formula:
  "(resolve_screen st window_id = Inr scr \<and>
    screen_columns scr = Some (PyInt columns) \<and>
    screen_lines scr = Some (PyInt lines) \<and>
    screen_scrolled_by scr = Some (PyInt scrolled_by) \<and>
    screen_historybuf scr = Some hb \<and>
    historybuf_len hb = Some (PyInt history_lines) \<and>
    fits_long columns \<and> fits_long lines \<and> fits_long scrolled_by \<and>
    fits_long history_lines \<and>
    fits_long ((history_lines - scrolled_by) * columns) \<and> fits_long (lines * columns)
    \<longrightarrow> get_visible_character_range st [window_id] =
           (Inr (PyTuple [PyInt (max 0 ((history_lines - scrolled_by) * columns)),
                          PyInt (lines * columns)]), st)) \<and>
   (get_visible_character_range st' args = (Inr (PyTuple [PyInt start, len]), st'')
    \<longrightarrow> 0 \<le> start)"
proof (intro conjI impI)
  assume a: "resolve_screen st window_id = Inr scr \<and>
    screen_columns scr = Some (PyInt columns) \<and>
    screen_lines scr = Some (PyInt lines) \<and>
    screen_scrolled_by scr = Some (PyInt scrolled_by) \<and>
    screen_historybuf scr = Some hb \<and>
    historybuf_len hb = Some (PyInt history_lines) \<and>
    fits_long columns \<and> fits_long lines \<and> fits_long scrolled_by \<and>
    fits_long history_lines \<and>
    fits_long ((history_lines - scrolled_by) * columns) \<and> fits_long (lines * columns)"
  then obtain w where w: "get_window_from_id st window_id = Inr w"
    and ws: "get_screen_from_window w = Inr scr"
    by (blast dest: resolve_screenD)
  from a have columns: "screen_columns scr = Some (PyInt columns)"
    and lines: "screen_lines scr = Some (PyInt lines)"
    and fits: "fits_long columns" "fits_long lines"
      "fits_long ((history_lines - scrolled_by) * columns)" "fits_long (lines * columns)"
    by simp_all
  have s: "read_scrolled_by scr = word_of_int scrolled_by"
    using a by (simp add: read_scrolled_by_def)
  have p: "\<not> read_scrolled_by_raises scr"
    using a by (simp add: read_scrolled_by_raises_def)
  have h: "read_history_lines False scr = word_of_int history_lines"
    using a by (simp add: read_history_lines_def)
  define start0 :: long where
    "start0 = (word_of_int history_lines - word_of_int scrolled_by) * word_of_int columns"
  define len0 :: long where "len0 = word_of_int lines * word_of_int columns"
  have "start0 = word_of_int ((history_lines - scrolled_by) * columns)"
    unfolding start0_def by (simp only: wi_homs)
  then have start0: "sint start0 = (history_lines - scrolled_by) * columns"
    using fits(3) by (simp only: sint_word_of_int_fits)
  have "len0 = word_of_int (lines * columns)"
    unfolding len0_def by (simp only: wi_homs)
  then have len0: "sint len0 = lines * columns"
    using fits(4) by (simp only: sint_word_of_int_fits)
  have clamp: "sint (if start0 <s 0 then 0 else start0)
                 = max 0 ((history_lines - scrolled_by) * columns)"
    using start0 by (simp add: word_sless_alt max_def)
  have "get_visible_character_range st [window_id] =
          (Inr (PyTuple [PyLong_FromLong (if start0 <s 0 then 0 else start0),
                         PyLong_FromLong len0]), st)"
    using w ws columns lines fits(1,2)
    by (simp add: get_visible_character_range_def s p h start0_def len0_def Let_def)
  then show "get_visible_character_range st [window_id] =
           (Inr (PyTuple [PyInt (max 0 ((history_lines - scrolled_by) * columns)),
                          PyInt (lines * columns)]), st)"
    by (simp only: PyLong_FromLong_def clamp len0)
next
  assume "get_visible_character_range st' args = (Inr (PyTuple [PyInt start, len]), st'')"
  then show "0 \<le> start" by (rule get_visible_character_range_start)
qed

theorem get_visible_character_range_formula_witness:
  "get_visible_character_range (single_window_state (reporting_screen 5 2 80 24 100 0))
     [PyInt 1]
     = (Inr (PyTuple [PyInt 8000, PyInt 1920]),
        single_window_state (reporting_screen 5 2 80 24 100 0)) \<and>
   get_visible_character_range (single_window_state (reporting_screen 0 0 80 24 0 1))
     [PyInt 1]
     = (Inr (PyTuple [PyInt 0, PyInt 1920]),
        single_window_state (reporting_screen 0 0 80 24 0 1))"
proof
  show "get_visible_character_range (single_window_state (reporting_screen 5 2 80 24 100 0))
     [PyInt 1]
     = (Inr (PyTuple [PyInt 8000, PyInt 1920]),
        single_window_state (reporting_screen 5 2 80 24 100 0))"
    using get_visible_character_range_formula
      [of "single_window_state (reporting_screen 5 2 80 24 100 0)" "PyInt 1"
          "reporting_screen 5 2 80 24 100 0" 80 24 0
          "\<lparr>historybuf_as_text = Some (PyStr ''make''),
           historybuf_len = Some (PyInt 100)\<rparr>"
          100]
    by (simp add: resolve_single_window_state reporting_screen_def fits_long_def)
  show "get_visible_character_range (single_window_state (reporting_screen 0 0 80 24 0 1))
     [PyInt 1]
     = (Inr (PyTuple [PyInt 0, PyInt 1920]),
        single_window_state (reporting_screen 0 0 80 24 0 1))"
    using get_visible_character_range_formula
      [of "single_window_state (reporting_screen 0 0 80 24 0 1)" "PyInt 1"
          "reporting_screen 0 0 80 24 0 1" 80 24 1
          "\<lparr>historybuf_as_text = Some (PyStr ''make''),
           historybuf_len = Some (PyInt 0)\<rparr>"
          0]
    by (simp add: resolve_single_window_state reporting_screen_def fits_long_def)
qed

text \<open>
  Without the bound the equation for the length fails: a screen reporting \<open>2 ^ 63\<close>
  columns, one line and no history gives the pair \<open>(0, -1)\<close>, since \<open>PyLong_AsLong\<close>
  reads the column count as -1.
\<close>

theorem get_visible_character_range_formula_counterexample:
  "get_visible_character_range
     (single_window_state (reporting_screen 0 0 (2 ^ 63) 1 0 0)) [PyInt 1]
     = (Inr (PyTuple [PyInt 0, PyInt (- 1)]),
        single_window_state (reporting_screen 0 0 (2 ^ 63) 1 0 0)) \<and>
   (- 1 :: int) \<noteq> 1 * 2 ^ 63"
  by (simp add: get_visible_character_range_def single_window_state_def reporting_screen_def
      get_window_from_id_def get_screen_from_window_def dict_get_def read_scrolled_by_def
      read_scrolled_by_raises_def read_history_lines_def PyLong_FromLong_def fits_long_def
      word_sless_alt)

subsection \<open>C7: an unknown window\<close>




subsection \<open>C8: inserting text\<close>




subsection \<open>C9: setting the cursor\<close>

text \<open>
  C9, as amended. For every window identifier, in the registry or not, and every
  position within the range of a C \<open>int\<close>, set_cursor_position returns \<open>None\<close>
  without raising; whatever its arguments are, it leaves the state as it was.
\<close>

theorem set_cursor_position_noop:
  "(fits_int position \<longrightarrow>
      set_cursor_position st [window_id, PyInt position] = (Inr PyNone, st)) \<and>
   snd (set_cursor_position st args) = st"
  by (simp add: set_cursor_position_def split: sum.splits prod.splits)

theorem set_cursor_position_noop_witness:
  "fits_int 8165 \<and>
   set_cursor_position (single_window_state (reporting_screen 5 2 80 24 100 0))
     [PyInt 7, PyInt 8165]
     = (Inr PyNone, single_window_state (reporting_screen 5 2 80 24 100 0))"
proof -
  have "fits_int 8165" by (simp add: fits_int_def)
  with set_cursor_position_noop
    [of 8165 "single_window_state (reporting_screen 5 2 80 24 100 0)" "PyInt 7"]
  show ?thesis by blast
qed

text \<open>
  A position that does not fit an \<open>int\<close> is refused when the arguments are parsed:
  \<open>2 ^ 31\<close> raises OverflowError.
\<close>

theorem set_cursor_position_noop_counterexample:
  "set_cursor_position (single_window_state (reporting_screen 5 2 80 24 100 0))
     [PyInt 1, PyInt (2 ^ 31)]
     = (Inl ParseTuple_OverflowError, single_window_state (reporting_screen 5 2 80 24 100 0))"
  by (simp add: set_cursor_position_def fits_int_def)

subsection \<open>C10: normalising twice\<close>

text \<open>
  C10. process_voice_command is idempotent on every string: none of the byte strings it
  emits is one of the phrases it recognises.
\<close>

theorem process_voice_command_idempotent:
  "process_voice_command (process_voice_command s) = process_voice_command s \<and>
   set control_strings \<inter> set voice_phrases = {}"
proof
  show "process_voice_command (process_voice_command s) = process_voice_command s"
    using process_voice_command_cases [of s] process_voice_command_control by auto
  show "set control_strings \<inter> set voice_phrases = {}"
    by (simp add: control_strings_def voice_phrases_def)
qed

theorem process_voice_command_idempotent_witness:
  "process_voice_command (process_voice_command ''new line'') = [CHR 0x0A]"
proof -
  have "process_voice_command (process_voice_command ''new line'')
          = process_voice_command ''new line''"
    using process_voice_command_idempotent by blast
  also have "\<dots> = [CHR 0x0A]"
    by (simp add: process_voice_command_c_str c_str_def)
  finally show ?thesis .
qed

end
